theory Spec2Isabelle
  imports Complex_Main
begin

section \<open>Numbers, vectors and the library primitives the sketch calls\<close>

text \<open>
  The sketch computes with JavaScript numbers. They are idealised here as the real
  numbers: rounding is not modelled, every formula is the one the source writes.
  The current time (the value of \<open>millis()\<close>) and the angle drawn by
  \<open>p5.Vector.random2D()\<close> come from the environment and are passed in as arguments.
\<close>

definition CANVAS_WIDTH :: real where
  "CANVAS_WIDTH = 1080"

definition CANVAS_HEIGHT :: real where
  "CANVAS_HEIGHT = 1350"

definition NUM_PARTICLES :: nat where
  "NUM_PARTICLES = 9000"

definition L_CHLADNI_SCALE :: real where
  "L_CHLADNI_SCALE = CANVAS_WIDTH / 3"

definition SCATTER_DURATION :: real where
  "SCATTER_DURATION = 500"

definition NUM_SETTLE_OSCILLATORS :: nat where
  "NUM_SETTLE_OSCILLATORS = 4"

text \<open>
  Modelled from the spec: the library function \<open>map\<close> of p5.js, which is not part of
  the repository. The spec calls it a linear map of a value over \<open>[start1, stop1]\<close> to
  \<open>[start2, stop2]\<close>; the sketch never passes the optional bounds flag, so nothing is
  clamped.
\<close>

definition map_p5 :: "real \<Rightarrow> real \<Rightarrow> real \<Rightarrow> real \<Rightarrow> real \<Rightarrow> real" where
  "map_p5 v start1 stop1 start2 stop2 =
     (v - start1) / (stop1 - start1) * (stop2 - start2) + start2"

text \<open>
  Modelled from the spec: the library function \<open>constrain\<close> of p5.js (the spec's
  "clamped to"): the value is cut off at the upper bound first, then at the lower one.
\<close>

definition constrain :: "real \<Rightarrow> real \<Rightarrow> real \<Rightarrow> real" where
  "constrain v low high = max (min v high) low"

text \<open>A \<open>p5.Vector\<close> of the plane; the third component stays zero in this sketch.\<close>

record vec =
  vx :: real
  vy :: real

definition createVector :: "real \<Rightarrow> real \<Rightarrow> vec" where
  "createVector a b = \<lparr>vx = a, vy = b\<rparr>"

definition add_vec :: "vec \<Rightarrow> vec \<Rightarrow> vec" where
  "add_vec v w = \<lparr>vx = vx v + vx w, vy = vy v + vy w\<rparr>"

definition mult_vec :: "vec \<Rightarrow> real \<Rightarrow> vec" where
  "mult_vec v k = \<lparr>vx = vx v * k, vy = vy v * k\<rparr>"

text \<open>The library's \<open>div\<close> leaves the vector alone when asked to divide by zero.\<close>

definition div_vec :: "vec \<Rightarrow> real \<Rightarrow> vec" where
  "div_vec v k = (if k = 0 then v else \<lparr>vx = vx v / k, vy = vy v / k\<rparr>)"

definition magSq :: "vec \<Rightarrow> real" where
  "magSq v = vx v * vx v + vy v * vy v"

definition mag :: "vec \<Rightarrow> real" where
  "mag v = sqrt (magSq v)"

text \<open>
  Modelled from the spec: \<open>p5.Vector.limit\<close> (the spec's "velocity clamped to a maximum
  magnitude"): a vector longer than the bound is divided by its length and multiplied
  by the bound, a shorter one is left alone.
\<close>

definition limit :: "vec \<Rightarrow> real \<Rightarrow> vec" where
  "limit v mx =
     (let mSq = magSq v
      in if mSq > mx * mx then mult_vec (div_vec v (sqrt mSq)) mx else v)"

text \<open>
  Modelled from the spec: \<open>p5.Vector.normalize\<close>: a nonzero vector is multiplied by
  the reciprocal of its length, the zero vector is left alone.
\<close>

definition normalize_vec :: "vec \<Rightarrow> vec" where
  "normalize_vec v = (let len = mag v in if len \<noteq> 0 then mult_vec v (1 / len) else v)"

text \<open>
  Modelled from the spec: \<open>p5.Vector.random2D\<close> (the spec's "random-direction"): the
  unit vector at an angle drawn at random; the angle is the argument.
\<close>

definition random2D :: "real \<Rightarrow> vec" where
  "random2D ang = \<lparr>vx = cos ang, vy = sin ang\<rparr>"

section \<open>Sound calculations and the field function\<close>

definition calculateFrequencyFromMN :: "real \<Rightarrow> real \<Rightarrow> real" where
  "calculateFrequencyFromMN m n =
     (let complexity = (m * 1.2) + (n * 1.2);
          freq = map_p5 complexity 2 40 50 600
      in freq)"

definition chladni :: "real \<Rightarrow> real \<Rightarrow> real \<Rightarrow> real \<Rightarrow> real" where
  "chladni x y m_val n_val =
     (let term1 = cos (n_val * pi * x / L_CHLADNI_SCALE) * cos (m_val * pi * y / L_CHLADNI_SCALE);
          term2 = cos (m_val * pi * x / L_CHLADNI_SCALE) * cos (n_val * pi * y / L_CHLADNI_SCALE)
      in term1 - term2)"

section \<open>Particles\<close>

text \<open>
  A particle as the class \<open>Particle\<close> has it. The colour is a constant that only
  \<open>display\<close> reads, so it is left out.
\<close>

record particle =
  pos :: vec
  vel :: vec
  acc :: vec
  maxSpeed :: real
  maxForce :: real
  isSettled :: bool

text \<open>
  The constructor; \<open>rx\<close> and \<open>ry\<close> are the values drawn by \<open>random(CANVAS_WIDTH)\<close>
  and \<open>random(CANVAS_HEIGHT)\<close>.
\<close>

definition new_Particle :: "real \<Rightarrow> real \<Rightarrow> particle" where
  "new_Particle rx ry =
     \<lparr>pos = createVector rx ry, vel = createVector 0 0, acc = createVector 0 0,
      maxSpeed = 2.5, maxForce = 0.4, isSettled = False\<rparr>"

text \<open>
  \<open>getChladniValue\<close> reads the globals \<open>stableM\<close> and \<open>stableN\<close>; they are the first
  two arguments here.
\<close>

definition getChladniValue :: "real \<Rightarrow> real \<Rightarrow> real \<Rightarrow> real \<Rightarrow> real" where
  "getChladniValue stM stN x_coord y_coord =
     (let scaledX = map_p5 x_coord 0 CANVAS_WIDTH (- L_CHLADNI_SCALE) L_CHLADNI_SCALE;
          scaledY = map_p5 y_coord 0 CANVAS_HEIGHT (- L_CHLADNI_SCALE) L_CHLADNI_SCALE
      in \<bar>chladni scaledX scaledY stM stN\<bar>)"

definition applyForce :: "particle \<Rightarrow> vec \<Rightarrow> particle" where
  "applyForce p force = p\<lparr>acc := add_vec (acc p) force\<rparr>"

text \<open>The four wrap-around tests run one after the other, each on the result of the last.\<close>

definition update :: "particle \<Rightarrow> particle" where
  "update p =
     (let p1 = p\<lparr>vel := add_vec (vel p) (acc p)\<rparr>;
          p2 = p1\<lparr>vel := limit (vel p1) (maxSpeed p1)\<rparr>;
          p3 = p2\<lparr>pos := add_vec (pos p2) (vel p2)\<rparr>;
          p4 = p3\<lparr>acc := mult_vec (acc p3) 0\<rparr>;
          p5 = (if vx (pos p4) < 0 then p4\<lparr>pos := (pos p4)\<lparr>vx := CANVAS_WIDTH\<rparr>\<rparr> else p4);
          p6 = (if vx (pos p5) > CANVAS_WIDTH then p5\<lparr>pos := (pos p5)\<lparr>vx := 0\<rparr>\<rparr> else p5);
          p7 = (if vy (pos p6) < 0 then p6\<lparr>pos := (pos p6)\<lparr>vy := CANVAS_HEIGHT\<rparr>\<rparr> else p6);
          p8 = (if vy (pos p7) > CANVAS_HEIGHT then p7\<lparr>pos := (pos p7)\<lparr>vy := 0\<rparr>\<rparr> else p7)
      in p8)"

text \<open>
  The four comparisons of the gradient descent (the lines that fill \<open>steerForce\<close>),
  in the order of the source: each one adds to or subtracts from one component of the
  vector built so far, or leaves it alone when the two magnitudes are equal.
\<close>

definition steerVote :: "real \<Rightarrow> real \<Rightarrow> real \<Rightarrow> real \<Rightarrow> real \<Rightarrow> vec" where
  "steerVote chladniVal rightVal leftVal downVal upVal =
     (let s0 = createVector 0 0;
          s1 = (if rightVal < chladniVal then s0\<lparr>vx := vx s0 + 1\<rparr>
                else if rightVal > chladniVal then s0\<lparr>vx := vx s0 - 1\<rparr> else s0);
          s2 = (if leftVal < chladniVal then s1\<lparr>vx := vx s1 - 1\<rparr>
                else if leftVal > chladniVal then s1\<lparr>vx := vx s1 + 1\<rparr> else s1);
          s3 = (if downVal < chladniVal then s2\<lparr>vy := vy s2 + 1\<rparr>
                else if downVal > chladniVal then s2\<lparr>vy := vy s2 - 1\<rparr> else s2);
          s4 = (if upVal < chladniVal then s3\<lparr>vy := vy s3 - 1\<rparr>
                else if upVal > chladniVal then s3\<lparr>vy := vy s3 + 1\<rparr> else s3)
      in s4)"

text \<open>
  \<open>behave\<close>. Besides the particle and the flag \<open>forming\<close> it reads the globals
  \<open>stableM\<close>, \<open>stableN\<close> and \<open>lastScatterTime\<close>, the clock (\<open>now\<close> is what
  \<open>millis()\<close> returns in this call) and at most one random direction (\<open>ang\<close>).
  The scatter branch returns early; the other branches fall through to \<open>update\<close>.
\<close>

definition behave :: "real \<Rightarrow> real \<Rightarrow> real \<Rightarrow> real \<Rightarrow> real \<Rightarrow> bool \<Rightarrow> particle \<Rightarrow> particle" where
  "behave stM stN lastScatter now ang forming p =
     (if now < lastScatter + SCATTER_DURATION then
        (let p1 = applyForce p (mult_vec (random2D ang) 0.8);
             p2 = p1\<lparr>vel := mult_vec (vel p1) 0.9\<rparr>;
             p3 = update p2
         in p3\<lparr>isSettled := False\<rparr>)
      else
        (let q =
           (if forming then
              (let chladniVal = getChladniValue stM stN (vx (pos p)) (vy (pos p));
                   tolerance = 0.03;
                   checkDistance = 2
               in if chladniVal < tolerance then
                    (let p1 = p\<lparr>vel := mult_vec (vel p) 0.8\<rparr>;
                         p2 = p1\<lparr>acc := mult_vec (acc p1) 0\<rparr>
                     in p2\<lparr>isSettled := True\<rparr>)
                  else
                    (let rightVal = getChladniValue stM stN (vx (pos p) + checkDistance) (vy (pos p));
                         leftVal = getChladniValue stM stN (vx (pos p) - checkDistance) (vy (pos p));
                         downVal = getChladniValue stM stN (vx (pos p)) (vy (pos p) + checkDistance);
                         upVal = getChladniValue stM stN (vx (pos p)) (vy (pos p) - checkDistance);
                         steerForce = steerVote chladniVal rightVal leftVal downVal upVal;
                         p1 = (if mag steerForce > 0
                               then applyForce p (mult_vec (normalize_vec steerForce) (maxForce p))
                               else applyForce p (mult_vec (random2D ang) 0.01));
                         p2 = p1\<lparr>vel := mult_vec (vel p1) 0.98\<rparr>
                     in p2\<lparr>isSettled := False\<rparr>))
            else p)
         in update q))"

section \<open>The sketch: globals, input handlers and the frame loop\<close>

text \<open>
  The global variables of the simulation. The sliders, the audio nodes and the recorder
  are objects of the platform and are not part of the state.
\<close>

record sketch =
  stableM :: real
  stableN :: real
  particles :: "particle list"
  patternShouldForm :: bool
  lastScatterTime :: real

text \<open>
  The state after \<open>setup\<close>: the initial values of the globals and \<open>NUM_PARTICLES\<close>
  fresh particles; \<open>rp i\<close> is the pair of random coordinates drawn for particle \<open>i\<close>.
\<close>

definition setup_sketch :: "(nat \<Rightarrow> real \<times> real) \<Rightarrow> sketch" where
  "setup_sketch rp =
     \<lparr>stableM = 1, stableN = 1,
      particles = map (\<lambda>i. new_Particle (fst (rp i)) (snd (rp i))) [0..<NUM_PARTICLES],
      patternShouldForm = True, lastScatterTime = 0\<rparr>"

text \<open>The input handlers of the two sliders; \<open>v\<close> is the slider's value.\<close>

definition sliderM_input :: "real \<Rightarrow> sketch \<Rightarrow> sketch" where
  "sliderM_input v g = g\<lparr>stableM := v, patternShouldForm := True\<rparr>"

definition sliderN_input :: "real \<Rightarrow> sketch \<Rightarrow> sketch" where
  "sliderN_input v g = g\<lparr>stableN := v, patternShouldForm := True\<rparr>"

text \<open>\<open>keyPressed\<close>; \<open>k\<close> is the key and \<open>now\<close> the value of \<open>millis()\<close>.\<close>

definition keyPressed :: "string \<Rightarrow> real \<Rightarrow> sketch \<Rightarrow> sketch" where
  "keyPressed k now g =
     (if k = ''S'' \<or> k = ''s'' then
        g\<lparr>stableM := 1, stableN := 1, patternShouldForm := False, lastScatterTime := now\<rparr>
      else g)"

text \<open>
  The loop over the particles in \<open>draw\<close>. Every call of \<open>behave\<close> reads the clock and
  draws its random direction for itself: \<open>clock i\<close> and \<open>rnd i\<close> are the values the
  call for particle \<open>i\<close> gets. The two counters are threaded through the loop.
\<close>

fun draw_loop ::
  "sketch \<Rightarrow> (nat \<Rightarrow> real) \<Rightarrow> (nat \<Rightarrow> real) \<Rightarrow> nat \<Rightarrow> particle list \<Rightarrow> nat \<Rightarrow> nat
     \<Rightarrow> particle list \<times> nat \<times> nat" where
  "draw_loop g clock rnd i [] numSettled numMoving = ([], numSettled, numMoving)"
| "draw_loop g clock rnd i (p # ps) numSettled numMoving =
     (let p' = behave (stableM g) (stableN g) (lastScatterTime g) (clock i) (rnd i)
                 (patternShouldForm g) p;
          r = (if isSettled p'
               then draw_loop g clock rnd (i + 1) ps (numSettled + 1) numMoving
               else draw_loop g clock rnd (i + 1) ps numSettled (numMoving + 1))
      in (p' # fst r, snd r))"

text \<open>What \<open>draw\<close> sends to the audio engine in one frame.\<close>

record audio =
  movementAmp :: real
  movementFilterFreq :: real
  oscFreq :: "real list"
  oscAmp :: "real list"

definition melodicIntervals :: "real list" where
  "melodicIntervals = [1, 1.5, 2, 2.5]"

text \<open>
  The sound generation of \<open>draw\<close>, from the two counters, the mode numbers and the
  frame counter.
\<close>

definition soundGeneration :: "nat \<Rightarrow> nat \<Rightarrow> real \<Rightarrow> real \<Rightarrow> nat \<Rightarrow> audio" where
  "soundGeneration numSettledParticles numMovingParticles stM stN frameCount =
     (let movementAmp = map_p5 (real numMovingParticles) 0 (real NUM_PARTICLES) 0.0 0.05;
          movementFilterFreq = map_p5 (real numMovingParticles) 0 (real NUM_PARTICLES) 100 800;
          baseFreq = calculateFrequencyFromMN stM stN;
          overallSettleAmp = map_p5 (real numSettledParticles) 0 (real NUM_PARTICLES) 0 0.4;
          voiceFreq = (\<lambda>i.
            let intervalMultiplier = melodicIntervals ! (i mod length melodicIntervals);
                oscFreq = baseFreq * intervalMultiplier
            in if i > 0 then oscFreq + sin (real frameCount * 0.01 + real i) * 1.5 else oscFreq);
          voiceAmp = (\<lambda>i.
            let oscAmp = overallSettleAmp / (if i = 0 then 1 else 1.5)
            in constrain oscAmp 0 0.4)
      in \<lparr>movementAmp = movementAmp, movementFilterFreq = movementFilterFreq,
          oscFreq = map voiceFreq [0..<NUM_SETTLE_OSCILLATORS],
          oscAmp = map voiceAmp [0..<NUM_SETTLE_OSCILLATORS]\<rparr>)"

text \<open>
  One frame: the particle loop, then the sound generation. The result is the new state
  and the audio parameters of the frame.
\<close>

definition draw :: "(nat \<Rightarrow> real) \<Rightarrow> (nat \<Rightarrow> real) \<Rightarrow> nat \<Rightarrow> sketch \<Rightarrow> sketch \<times> audio" where
  "draw clock rnd frameCount g =
     (let r = draw_loop g clock rnd 0 (particles g) 0 0;
          numSettledParticles = fst (snd r);
          numMovingParticles = snd (snd r)
      in (g\<lparr>particles := fst r\<rparr>,
          soundGeneration numSettledParticles numMovingParticles (stableM g) (stableN g) frameCount))"

text \<open>
  What can happen to a running sketch: a frame, a move of one of the two sliders, a key
  press. \<open>run\<close> applies a sequence of events, the earliest first.
\<close>

datatype event =
  Frame "nat \<Rightarrow> real" "nat \<Rightarrow> real" nat
  | SliderM real
  | SliderN real
  | Key string real

fun step :: "event \<Rightarrow> sketch \<Rightarrow> sketch" where
  "step (Frame clock rnd frameCount) g = fst (draw clock rnd frameCount g)"
| "step (SliderM v) g = sliderM_input v g"
| "step (SliderN v) g = sliderN_input v g"
| "step (Key k now) g = keyPressed k now g"

fun run :: "event list \<Rightarrow> sketch \<Rightarrow> sketch" where
  "run [] g = g"
| "run (e # es) g = run es (step e g)"

section \<open>The field function\<close>

text \<open>
  C7. For all points \<open>(x, y)\<close> and all mode numbers \<open>m\<close>, \<open>n\<close>, swapping the two mode
  numbers negates the value of the field function.
\<close>

theorem chladni_antisymmetric: "chladni x y m n = - chladni x y n m"
  by (simp add: chladni_def)

section \<open>Lengths of vectors\<close>

lemma magSq_nonneg: "0 \<le> magSq v"
  by (simp add: magSq_def)

lemma magSq_mult_vec: "magSq (mult_vec v k) = magSq v * (k * k)"
  by (simp add: magSq_def mult_vec_def algebra_simps)

lemma mag_mult_vec: "mag (mult_vec v k) = mag v * \<bar>k\<bar>"
  by (simp add: mag_def magSq_mult_vec real_sqrt_mult)

lemma mag_nonneg: "0 \<le> mag v"
  by (simp add: mag_def magSq_nonneg)

lemma mag_random2D: "mag (random2D ang) = 1"
  by (simp add: mag_def magSq_def random2D_def power2_eq_square[symmetric])

lemma magSq_gt_iff: "0 \<le> mx \<Longrightarrow> (magSq v > mx * mx) = (mag v > mx)"
proof -
  assume "0 \<le> mx"
  then have e: "sqrt (mx * mx) = mx" by simp
  have "(mx * mx < magSq v) = (sqrt (mx * mx) < sqrt (magSq v))"
    by (simp only: real_sqrt_less_iff)
  then show ?thesis by (simp only: e mag_def)
qed

lemma limit_short: "0 \<le> mx \<Longrightarrow> mag v \<le> mx \<Longrightarrow> limit v mx = v"
  using magSq_gt_iff[of mx v] by (simp add: limit_def)

lemma limit_long: "0 \<le> mx \<Longrightarrow> mx < mag v \<Longrightarrow> limit v mx = mult_vec v (mx / mag v)"
proof -
  assume a: "0 \<le> mx" "mx < mag v"
  then have gt: "magSq v > mx * mx" using magSq_gt_iff[of mx v] by simp
  have "0 < sqrt (magSq v)" using a unfolding mag_def by linarith
  then have nz: "magSq v \<noteq> 0" by auto
  show ?thesis using gt nz
    by (simp add: limit_def Let_def div_vec_def mult_vec_def mag_def)
qed

lemma mag_limit_long: "0 \<le> mx \<Longrightarrow> mx < mag v \<Longrightarrow> mag (limit v mx) = mx"
  by (simp add: limit_long mag_mult_vec)

lemma mag_limit_le: "0 \<le> mx \<Longrightarrow> mag (limit v mx) \<le> mx"
  by (cases "mag v \<le> mx") (simp_all add: limit_short mag_limit_long)

lemma limit_idem: "0 \<le> mx \<Longrightarrow> limit (limit v mx) mx = limit v mx"
  by (simp add: limit_short mag_limit_le)

lemma normalize_scaled: "0 < mag v \<Longrightarrow> mag (mult_vec (normalize_vec v) k) = \<bar>k\<bar>"
  by (simp add: normalize_vec_def mag_mult_vec)

section \<open>The motion integrator\<close>

lemma vx_add_vec: "vx (add_vec a b) = vx a + vx b"
  by (simp add: add_vec_def)

lemma vy_add_vec: "vy (add_vec a b) = vy a + vy b"
  by (simp add: add_vec_def)

lemma update_eq:
  "update p =
     p\<lparr>vel := limit (add_vec (vel p) (acc p)) (maxSpeed p),
       pos := \<lparr>vx = (if vx (pos p) + vx (limit (add_vec (vel p) (acc p)) (maxSpeed p)) < 0
                     then CANVAS_WIDTH
                     else if vx (pos p) + vx (limit (add_vec (vel p) (acc p)) (maxSpeed p))
                               > CANVAS_WIDTH
                     then 0
                     else vx (pos p) + vx (limit (add_vec (vel p) (acc p)) (maxSpeed p))),
               vy = (if vy (pos p) + vy (limit (add_vec (vel p) (acc p)) (maxSpeed p)) < 0
                     then CANVAS_HEIGHT
                     else if vy (pos p) + vy (limit (add_vec (vel p) (acc p)) (maxSpeed p))
                               > CANVAS_HEIGHT
                     then 0
                     else vy (pos p) + vy (limit (add_vec (vel p) (acc p)) (maxSpeed p)))\<rparr>,
       acc := createVector 0 0\<rparr>"
proof -
  define V where "V = limit (add_vec (vel p) (acc p)) (maxSpeed p)"
  define x where "x = vx (pos p) + vx V"
  define y where "y = vy (pos p) + vy V"
  define p4 where "p4 = p\<lparr>vel := V, pos := \<lparr>vx = x, vy = y\<rparr>, acc := createVector 0 0\<rparr>"
  define p5 where "p5 = (if vx (pos p4) < 0 then p4\<lparr>pos := (pos p4)\<lparr>vx := CANVAS_WIDTH\<rparr>\<rparr> else p4)"
  define p6 where "p6 = (if vx (pos p5) > CANVAS_WIDTH then p5\<lparr>pos := (pos p5)\<lparr>vx := 0\<rparr>\<rparr> else p5)"
  define p7 where "p7 = (if vy (pos p6) < 0 then p6\<lparr>pos := (pos p6)\<lparr>vy := CANVAS_HEIGHT\<rparr>\<rparr> else p6)"
  define p8 where "p8 = (if vy (pos p7) > CANVAS_HEIGHT then p7\<lparr>pos := (pos p7)\<lparr>vy := 0\<rparr>\<rparr> else p7)"
  have u: "update p = p8"
    unfolding update_def p8_def p7_def p6_def p5_def p4_def x_def y_def V_def
    by (simp add: Let_def add_vec_def mult_vec_def createVector_def split del: if_split
          cong: if_cong)
  have e5: "p5 = p4\<lparr>pos := \<lparr>vx = (if x < 0 then CANVAS_WIDTH else x), vy = y\<rparr>\<rparr>"
    by (simp add: p5_def p4_def)
  have e6: "p6 = p4\<lparr>pos := \<lparr>vx = (if x < 0 then CANVAS_WIDTH else if x > CANVAS_WIDTH then 0 else x),
                            vy = y\<rparr>\<rparr>"
    by (simp add: p6_def e5 p4_def CANVAS_WIDTH_def)
  have e7: "p7 = p4\<lparr>pos := \<lparr>vx = (if x < 0 then CANVAS_WIDTH else if x > CANVAS_WIDTH then 0 else x),
                            vy = (if y < 0 then CANVAS_HEIGHT else y)\<rparr>\<rparr>"
    by (simp add: p7_def e6 p4_def)
  have e8: "p8 = p4\<lparr>pos := \<lparr>vx = (if x < 0 then CANVAS_WIDTH else if x > CANVAS_WIDTH then 0 else x),
                            vy = (if y < 0 then CANVAS_HEIGHT else if y > CANVAS_HEIGHT then 0 else y)\<rparr>\<rparr>"
    by (simp add: p8_def e7 p4_def CANVAS_HEIGHT_def)
  show ?thesis
    unfolding u e8 p4_def x_def y_def V_def by simp
qed

lemma update_vel: "vel (update p) = limit (add_vec (vel p) (acc p)) (maxSpeed p)"
  by (simp add: update_eq)

lemma update_acc: "acc (update p) = createVector 0 0"
  by (simp add: update_eq)

lemma update_isSettled: "isSettled (update p) = isSettled p"
  by (simp add: update_eq)

lemma update_maxSpeed: "maxSpeed (update p) = maxSpeed p"
  by (simp add: update_eq)

lemma update_maxForce: "maxForce (update p) = maxForce p"
  by (simp add: update_eq)

lemma update_pos_x:
  "vx (pos (update p)) =
     (if vx (pos p) + vx (vel (update p)) < 0 then CANVAS_WIDTH
      else if vx (pos p) + vx (vel (update p)) > CANVAS_WIDTH then 0
      else vx (pos p) + vx (vel (update p)))"
  unfolding update_vel by (simp add: update_eq)

lemma update_pos_y:
  "vy (pos (update p)) =
     (if vy (pos p) + vy (vel (update p)) < 0 then CANVAS_HEIGHT
      else if vy (pos p) + vy (vel (update p)) > CANVAS_HEIGHT then 0
      else vy (pos p) + vy (vel (update p)))"
  unfolding update_vel by (simp add: update_eq)

text \<open>
  C5. For every particle (whose maximum speed is the 2.5 the constructor sets),
  \<open>update\<close> adds the acceleration to the velocity, cuts the velocity down to length
  2.5 if it is longer (keeping its direction), adds the velocity to the position and
  resets the acceleration to zero. A position component that has left \<open>[0, width]\<close>
  (resp. \<open>[0, height]\<close>) is put on the opposite edge: below zero it becomes the upper
  bound, above the upper bound it becomes exactly 0. It is neither clamped to the edge
  it crossed nor reflected: the velocity is not touched by the wrap.
\<close>

theorem update_integrates_and_wraps:
  assumes "maxSpeed p = 2.5"
  shows "vel (update p) = limit (add_vec (vel p) (acc p)) 2.5
    \<and> mag (vel (update p)) \<le> 2.5
    \<and> (if mag (add_vec (vel p) (acc p)) \<le> 2.5
        then vel (update p) = add_vec (vel p) (acc p)
        else vel (update p) =
               mult_vec (add_vec (vel p) (acc p)) (2.5 / mag (add_vec (vel p) (acc p)))
             \<and> mag (vel (update p)) = 2.5)
    \<and> acc (update p) = createVector 0 0
    \<and> vx (pos (update p)) =
        (if vx (pos p) + vx (vel (update p)) < 0 then CANVAS_WIDTH
         else if vx (pos p) + vx (vel (update p)) > CANVAS_WIDTH then 0
         else vx (pos p) + vx (vel (update p)))
    \<and> vy (pos (update p)) =
        (if vy (pos p) + vy (vel (update p)) < 0 then CANVAS_HEIGHT
         else if vy (pos p) + vy (vel (update p)) > CANVAS_HEIGHT then 0
         else vy (pos p) + vy (vel (update p)))
    \<and> isSettled (update p) = isSettled p
    \<and> maxSpeed (update p) = maxSpeed p \<and> maxForce (update p) = maxForce p"
proof -
  let ?v = "add_vec (vel p) (acc p)"
  have v: "vel (update p) = limit ?v 2.5"
    by (simp only: update_vel assms)
  have le: "mag (vel (update p)) \<le> 2.5"
    unfolding v by (rule mag_limit_le) simp
  have cases: "if mag ?v \<le> 2.5 then vel (update p) = ?v
     else vel (update p) = mult_vec ?v (2.5 / mag ?v) \<and> mag (vel (update p)) = 2.5"
  proof (cases "mag ?v \<le> 2.5")
    case True
    then show ?thesis unfolding v by (simp add: limit_short)
  next
    case False
    then have gt: "2.5 < mag ?v" by simp
    have "limit ?v 2.5 = mult_vec ?v (2.5 / mag ?v)"
      by (rule limit_long) (use gt in simp_all)
    moreover have "mag (limit ?v 2.5) = 2.5"
      by (rule mag_limit_long) (use gt in simp_all)
    ultimately show ?thesis unfolding v using False by (simp only: if_False simp_thms)
  qed
  show ?thesis
    by (intro conjI v le cases update_acc update_pos_x update_pos_y
        update_isSettled update_maxSpeed update_maxForce)
qed

lemma limit_example:  "limit (createVector 2 0) 2.5 = createVector 2 0"
  by (rule limit_short) (simp_all add: mag_def magSq_def createVector_def)

text \<open>
  A particle at \<open>x = 1079\<close> moving right with speed 2 crosses the right edge and
  reappears at \<open>x = 0\<close>.
\<close>

theorem update_integrates_and_wraps_witness:
  "maxSpeed (new_Particle 1079 5 \<lparr>vel := createVector 2 0\<rparr>) = 2.5
   \<and> vel (update (new_Particle 1079 5 \<lparr>vel := createVector 2 0\<rparr>)) = createVector 2 0
   \<and> pos (update (new_Particle 1079 5 \<lparr>vel := createVector 2 0\<rparr>)) = createVector 0 5
   \<and> acc (update (new_Particle 1079 5 \<lparr>vel := createVector 2 0\<rparr>)) = createVector 0 0"
proof -
  let ?p = "new_Particle 1079 5 \<lparr>vel := createVector 2 0\<rparr>"
  have ms: "maxSpeed ?p = 2.5" by (simp add: new_Particle_def)
  have av: "add_vec (vel ?p) (acc ?p) = createVector 2 0"
    by (simp add: new_Particle_def add_vec_def createVector_def)
  note t = update_integrates_and_wraps [OF ms]
  have v: "vel (update ?p) = createVector 2 0"
    using t by (simp only: av limit_example)
  have x: "vx (pos (update ?p)) = 0" and y: "vy (pos (update ?p)) = 5"
    using t unfolding v by (simp_all add: new_Particle_def createVector_def CANVAS_WIDTH_def CANVAS_HEIGHT_def)
  have "pos (update ?p) = createVector 0 5"
    using x y by (simp add: createVector_def)
  then show ?thesis using ms v t by simp
qed

section \<open>The base tone\<close>

text \<open>
  C2, as amended. For \<open>m = 1\<close> and \<open>n = 1\<close> the base tone frequency is the linear map
  of the complexity \<open>1 * 1.2 + 1 * 1.2 = 2.4\<close> from \<open>[2, 40]\<close> onto \<open>[50, 600]\<close>; this
  value is \<open>1060 / 19\<close>, about 55.79 Hz.
\<close>

theorem base_frequency_1_1:
  "calculateFrequencyFromMN 1 1 = map_p5 2.4 2 40 50 600
   \<and> calculateFrequencyFromMN 1 1 = 1060 / 19
   \<and> \<bar>calculateFrequencyFromMN 1 1 - 55.79\<bar> < 0.005"
  by (simp add: calculateFrequencyFromMN_def map_p5_def)

text \<open>
  C2 as stated fails: the value of the linear map is not within rounding of 51.9 Hz.
\<close>

theorem base_frequency_1_1_counterexample:
  "\<not> (calculateFrequencyFromMN 1 1 = map_p5 2.4 2 40 50 600
      \<and> \<bar>calculateFrequencyFromMN 1 1 - 51.9\<bar> \<le> 0.05)"
  by (simp add: calculateFrequencyFromMN_def map_p5_def)

section \<open>The behaviour policy\<close>

lemma behave_scatter:
  "now < lastScatter + SCATTER_DURATION \<Longrightarrow>
   behave stM stN lastScatter now ang forming p =
     (update (p\<lparr>acc := add_vec (acc p) (mult_vec (random2D ang) 0.8),
                 vel := mult_vec (vel p) 0.9\<rparr>))\<lparr>isSettled := False\<rparr>"
  by (simp add: behave_def applyForce_def Let_def)

lemma behave_coast:
  "\<not> now < lastScatter + SCATTER_DURATION \<Longrightarrow>
   behave stM stN lastScatter now ang False p = update p"
  by (simp add: behave_def)

lemma behave_settle:
  "\<not> now < lastScatter + SCATTER_DURATION \<Longrightarrow>
   getChladniValue stM stN (vx (pos p)) (vy (pos p)) < 0.03 \<Longrightarrow>
   behave stM stN lastScatter now ang True p =
     update (p\<lparr>vel := mult_vec (vel p) 0.8, acc := mult_vec (acc p) 0, isSettled := True\<rparr>)"
  by (simp add: behave_def Let_def)

lemma behave_descend:
  "\<not> now < lastScatter + SCATTER_DURATION \<Longrightarrow>
   \<not> getChladniValue stM stN (vx (pos p)) (vy (pos p)) < 0.03 \<Longrightarrow>
   behave stM stN lastScatter now ang True p =
     update (p\<lparr>acc := add_vec (acc p)
                 (if mag (steerVote (getChladniValue stM stN (vx (pos p)) (vy (pos p)))
                            (getChladniValue stM stN (vx (pos p) + 2) (vy (pos p)))
                            (getChladniValue stM stN (vx (pos p) - 2) (vy (pos p)))
                            (getChladniValue stM stN (vx (pos p)) (vy (pos p) + 2))
                            (getChladniValue stM stN (vx (pos p)) (vy (pos p) - 2))) > 0
                  then mult_vec (normalize_vec
                         (steerVote (getChladniValue stM stN (vx (pos p)) (vy (pos p)))
                            (getChladniValue stM stN (vx (pos p) + 2) (vy (pos p)))
                            (getChladniValue stM stN (vx (pos p) - 2) (vy (pos p)))
                            (getChladniValue stM stN (vx (pos p)) (vy (pos p) + 2))
                            (getChladniValue stM stN (vx (pos p)) (vy (pos p) - 2))))
                         (maxForce p)
                  else mult_vec (random2D ang) 0.01),
               vel := mult_vec (vel p) 0.98, isSettled := False\<rparr>)"
  by (simp add: behave_def Let_def applyForce_def)

lemma steerVote_sgn:
  "steerVote c r l d u = \<lparr>vx = sgn (c - r) + sgn (l - c), vy = sgn (c - d) + sgn (u - c)\<rparr>"
  by (simp add: steerVote_def Let_def createVector_def sgn_if)

lemma mag_pos_iff: "(0 < mag v) = (v \<noteq> \<lparr>vx = 0, vy = 0\<rparr>)"
proof -
  have "(magSq v = 0) = (vx v = 0 \<and> vy v = 0)"
    by (simp add: magSq_def sum_squares_eq_zero_iff)
  moreover have "(v = \<lparr>vx = 0, vy = 0\<rparr>) = (vx v = 0 \<and> vy v = 0)"
    by (cases v) simp
  moreover have "(0 < mag v) = (magSq v \<noteq> 0)"
    using magSq_nonneg [of v] by (simp add: mag_def less_le)
  ultimately show ?thesis by simp
qed

lemma normalize_mult: "0 < mag v \<Longrightarrow> mult_vec (normalize_vec v) k = mult_vec v (k / mag v)"
  by (simp add: normalize_vec_def mult_vec_def Let_def)

lemma mag_scaled_to: "0 < mag v \<Longrightarrow> 0 \<le> k \<Longrightarrow> mag (mult_vec v (k / mag v)) = k"
  by (simp add: mag_mult_vec)

text \<open>
  C6. In the descending branch (outside the scatter window, flag set, field magnitude
  at the particle not below 0.03) the magnitudes \<open>r\<close>, \<open>l\<close>, \<open>d\<close>, \<open>u\<close> at the offsets
  \<open>+2\<close> and \<open>-2\<close> along each axis are each compared with the magnitude \<open>c\<close> at the
  particle: a lower neighbour adds a unit component towards it, a higher one a unit
  component away from it, an equal one nothing, so the two comparisons of an axis add
  up to \<open>sgn (c - r) + sgn (l - c)\<close> (resp. \<open>sgn (c - d) + sgn (u - c)\<close>). A nonzero
  vote is scaled to length 0.4 and added to the acceleration; a zero vote is replaced
  by a random direction of length 0.01. Then the velocity is multiplied by 0.98, the
  particle is marked not settled, and the motion is integrated.
\<close>

theorem descending_branch:
  fixes stM stN lastScatter now ang :: real and p :: particle
  defines "c \<equiv> getChladniValue stM stN (vx (pos p)) (vy (pos p))"
    and "r \<equiv> getChladniValue stM stN (vx (pos p) + 2) (vy (pos p))"
    and "l \<equiv> getChladniValue stM stN (vx (pos p) - 2) (vy (pos p))"
    and "d \<equiv> getChladniValue stM stN (vx (pos p)) (vy (pos p) + 2)"
    and "u \<equiv> getChladniValue stM stN (vx (pos p)) (vy (pos p) - 2)"
  defines "vote \<equiv> \<lparr>vx = sgn (c - r) + sgn (l - c), vy = sgn (c - d) + sgn (u - c)\<rparr>"
  defines "F \<equiv> (if vote \<noteq> \<lparr>vx = 0, vy = 0\<rparr> then mult_vec vote (0.4 / mag vote)
                  else mult_vec (random2D ang) 0.01)"
  assumes window: "\<not> now < lastScatter + SCATTER_DURATION"
    and high: "\<not> c < 0.03"
    and force: "maxForce p = 0.4"
  shows "behave stM stN lastScatter now ang True p =
           update (p\<lparr>acc := add_vec (acc p) F, vel := mult_vec (vel p) 0.98,
                      isSettled := False\<rparr>)
         \<and> mag F = (if vote \<noteq> \<lparr>vx = 0, vy = 0\<rparr> then 0.4 else 0.01)
         \<and> isSettled (behave stM stN lastScatter now ang True p) = False"
proof -
  have sv: "steerVote c r l d u = vote"
    by (simp add: steerVote_sgn vote_def)
  have F: "(if mag (steerVote c r l d u) > 0
            then mult_vec (normalize_vec (steerVote c r l d u)) (maxForce p)
            else mult_vec (random2D ang) 0.01) = F"
  proof (cases "vote = \<lparr>vx = 0, vy = 0\<rparr>")
    case True
    then have "\<not> 0 < mag vote" by (simp add: mag_pos_iff)
    then show ?thesis using True by (simp add: sv F_def)
  next
    case False
    then have pos: "0 < mag vote" by (simp add: mag_pos_iff)
    then show ?thesis using False
      by (simp only: sv F_def force normalize_mult [OF pos] if_True if_False simp_thms)
  qed
  have b: "behave stM stN lastScatter now ang True p =
           update (p\<lparr>acc := add_vec (acc p) F, vel := mult_vec (vel p) 0.98,
                      isSettled := False\<rparr>)"
  proof -
    have "behave stM stN lastScatter now ang True p =
           update (p\<lparr>acc := add_vec (acc p)
                       (if mag (steerVote c r l d u) > 0
                        then mult_vec (normalize_vec (steerVote c r l d u)) (maxForce p)
                        else mult_vec (random2D ang) 0.01),
                     vel := mult_vec (vel p) 0.98, isSettled := False\<rparr>)"
      unfolding c_def r_def l_def d_def u_def
      by (rule behave_descend [OF window high [unfolded c_def]])
    then show ?thesis by (simp only: F)
  qed
  have m: "mag F = (if vote \<noteq> \<lparr>vx = 0, vy = 0\<rparr> then 0.4 else 0.01)"
  proof (cases "vote = \<lparr>vx = 0, vy = 0\<rparr>")
    case True
    then show ?thesis by (simp add: F_def mag_mult_vec mag_random2D)
  next
    case False
    then have pos: "0 < mag vote" by (simp add: mag_pos_iff)
    have "mag (mult_vec vote (0.4 / mag vote)) = 0.4"
      by (rule mag_scaled_to [OF pos]) simp
    then show ?thesis using False by (simp only: F_def if_True simp_thms)
  qed
  have s: "isSettled (behave stM stN lastScatter now ang True p) = False"
    unfolding b by (simp add: update_isSettled)
  show ?thesis by (intro conjI b m s)
qed

text \<open>
  The field for the modes \<open>(1, 2)\<close> at the middle of the lower edge of the canvas: its
  magnitude there is 2, and it is mirror-symmetric in both axes around that point.
\<close>

lemma scaled_x: "map_p5 x 0 CANVAS_WIDTH (- L_CHLADNI_SCALE) L_CHLADNI_SCALE = (x - 540) * 2 / 3"
  by (simp add: map_p5_def CANVAS_WIDTH_def L_CHLADNI_SCALE_def field_simps)

lemma scaled_y: "map_p5 y 0 CANVAS_HEIGHT (- L_CHLADNI_SCALE) L_CHLADNI_SCALE = (y - 675) * 8 / 15"
  by (simp add: map_p5_def CANVAS_WIDTH_def CANVAS_HEIGHT_def L_CHLADNI_SCALE_def field_simps)

lemma getChladniValue_mirror_x:
  "getChladniValue stM stN (540 + t) y = getChladniValue stM stN (540 - t) y"
proof -
  have "chladni (- (t * 2 / 3)) w stM stN = chladni (t * 2 / 3) w stM stN" for w
    by (simp add: chladni_def)
  then show ?thesis
    by (simp add: getChladniValue_def scaled_x)
qed

lemma cos_pi_plus: "cos (pi + a) = - cos a"
  by (simp add: cos_add)

lemma cos_2pi_plus: "cos (2 * pi + a) = cos a"
  by (simp add: cos_add)

lemma chladni_1_2_bottom: "chladni 0 (360 + t) 1 2 = - cos (pi * t / 360) - cos (pi * t / 180)"
proof -
  have a: "1 * pi * (360 + t) / L_CHLADNI_SCALE = pi + pi * t / 360"
    by (simp add: L_CHLADNI_SCALE_def CANVAS_WIDTH_def field_simps)
  have b: "2 * pi * (360 + t) / L_CHLADNI_SCALE = 2 * pi + pi * t / 180"
    by (simp add: L_CHLADNI_SCALE_def CANVAS_WIDTH_def field_simps)
  have "chladni 0 (360 + t) 1 2 =
          cos 0 * cos (1 * pi * (360 + t) / L_CHLADNI_SCALE)
          - cos 0 * cos (2 * pi * (360 + t) / L_CHLADNI_SCALE)"
    by (simp add: chladni_def)
  also have "\<dots> = - cos (pi * t / 360) - cos (pi * t / 180)"
    unfolding a b cos_pi_plus cos_2pi_plus by simp
  finally show ?thesis .
qed

lemma getChladniValue_1_2_bottom:
  "getChladniValue 1 2 540 (1350 + t) =
     \<bar>cos (pi * (t * 8 / 15) / 360) + cos (pi * (t * 8 / 15) / 180)\<bar>"
proof -
  have y: "map_p5 (1350 + t) 0 CANVAS_HEIGHT (- L_CHLADNI_SCALE) L_CHLADNI_SCALE = 360 + t * 8 / 15"
    by (simp add: scaled_y)
  have x: "map_p5 540 0 CANVAS_WIDTH (- L_CHLADNI_SCALE) L_CHLADNI_SCALE = 0"
    by (simp add: scaled_x)
  have "getChladniValue 1 2 540 (1350 + t) = \<bar>chladni 0 (360 + t * 8 / 15) 1 2\<bar>"
    unfolding getChladniValue_def Let_def x y ..
  also have "\<dots> = \<bar>- cos (pi * (t * 8 / 15) / 360) - cos (pi * (t * 8 / 15) / 180)\<bar>"
    by (simp only: chladni_1_2_bottom)
  also have "\<dots> = \<bar>cos (pi * (t * 8 / 15) / 360) + cos (pi * (t * 8 / 15) / 180)\<bar>"
    by (simp add: abs_minus_commute [symmetric] abs_if)
  finally show ?thesis .
qed

lemma getChladniValue_1_2_mirror_y:
  "getChladniValue 1 2 540 (1350 + t) = getChladniValue 1 2 540 (1350 - t)"
  using getChladniValue_1_2_bottom [of t] getChladniValue_1_2_bottom [of "- t"]
  by simp

lemma getChladniValue_1_2_at_bottom: "getChladniValue 1 2 540 1350 = 2"
  using getChladniValue_1_2_bottom [of 0] by simp

text \<open>
  A fresh particle at the middle of the lower edge, modes \<open>(1, 2)\<close>, one second after
  start: the field magnitude is 2, the neighbours on either side are equal, so the vote
  is zero and the random impulse (here at angle 0) is applied.
\<close>

theorem descending_branch_witness:
  "\<not> (1000::real) < 0 + SCATTER_DURATION
   \<and> \<not> getChladniValue 1 2 (vx (pos (new_Particle 540 1350))) (vy (pos (new_Particle 540 1350)))
         < 0.03
   \<and> maxForce (new_Particle 540 1350) = 0.4
   \<and> behave 1 2 0 1000 0 True (new_Particle 540 1350) =
       update ((new_Particle 540 1350)\<lparr>acc := createVector 0.01 0, vel := createVector 0 0,
                                          isSettled := False\<rparr>)
   \<and> isSettled (behave 1 2 0 1000 0 True (new_Particle 540 1350)) = False"
proof -
  let ?p = "new_Particle 540 1350"
  have px: "vx (pos ?p) = 540" and py: "vy (pos ?p) = 1350"
    by (simp_all add: new_Particle_def createVector_def)
  have w: "\<not> (1000::real) < 0 + SCATTER_DURATION"
    by (simp add: SCATTER_DURATION_def)
  have h: "\<not> getChladniValue 1 2 (vx (pos ?p)) (vy (pos ?p)) < 0.03"
    unfolding px py by (simp add: getChladniValue_1_2_at_bottom)
  have f: "maxForce ?p = 0.4"
    by (simp add: new_Particle_def)
  have rl: "getChladniValue 1 2 542 1350 = getChladniValue 1 2 538 1350"
    using getChladniValue_mirror_x [of 1 2 2 1350] by simp
  have du: "getChladniValue 1 2 540 1352 = getChladniValue 1 2 540 1348"
    using getChladniValue_1_2_mirror_y [of 2] by simp
  have sg: "sgn (a - b) + sgn (b - a) = 0" for a b :: real
    by (simp add: sgn_if)
  have F: "add_vec (acc ?p) (mult_vec (random2D 0) 0.01) = createVector 0.01 0"
    by (simp add: new_Particle_def add_vec_def mult_vec_def random2D_def createVector_def)
  have v: "mult_vec (vel ?p) 0.98 = createVector 0 0"
    by (simp add: new_Particle_def mult_vec_def createVector_def)
  note t = descending_branch [where stM = 1 and stN = 2 and lastScatter = 0 and now = 1000
      and ang = 0 and p = ?p, OF w h f]
  have b: "behave 1 2 0 1000 0 True ?p =
       update (?p\<lparr>acc := createVector 0.01 0, vel := createVector 0 0, isSettled := False\<rparr>)"
  proof -
    have "behave 1 2 0 1000 0 True ?p =
       update (?p\<lparr>acc := add_vec (acc ?p) (mult_vec (random2D 0) 0.01),
                   vel := mult_vec (vel ?p) 0.98, isSettled := False\<rparr>)"
      using t [unfolded px py] by (simp add: rl du sg)
    then show ?thesis by (simp only: F v)
  qed
  have s: "isSettled (behave 1 2 0 1000 0 True ?p) = False"
    by (rule t [THEN conjunct2, THEN conjunct2])
  show ?thesis by (intro conjI w h f b s)
qed

lemma behave_cases:
  obtains (scatter) "now < lastScatter + SCATTER_DURATION"
  | (coast) "\<not> now < lastScatter + SCATTER_DURATION" "\<not> forming"
  | (settle) "\<not> now < lastScatter + SCATTER_DURATION" "forming"
      "getChladniValue stM stN (vx (pos p)) (vy (pos p)) < 0.03"
  | (descend) "\<not> now < lastScatter + SCATTER_DURATION" "forming"
      "\<not> getChladniValue stM stN (vx (pos p)) (vy (pos p)) < 0.03"
  by blast

lemma behave_acc: "acc (behave stM stN lastScatter now ang forming p) = createVector 0 0"
proof (cases rule: behave_cases [where now = now and lastScatter = lastScatter and forming = forming
    and stM = stM and stN = stN and p = p])
  case scatter
  then show ?thesis by (simp add: behave_scatter update_acc)
next
  case coast
  then show ?thesis by (simp add: behave_coast update_acc)
next
  case settle
  then show ?thesis by (simp add: behave_settle update_acc)
next
  case descend
  then show ?thesis by (simp add: behave_descend update_acc)
qed

lemma behave_maxSpeed: "maxSpeed (behave stM stN lastScatter now ang forming p) = maxSpeed p"
proof (cases rule: behave_cases [where now = now and lastScatter = lastScatter and forming = forming
    and stM = stM and stN = stN and p = p])
  case scatter
  then show ?thesis by (simp add: behave_scatter update_maxSpeed)
next
  case coast
  then show ?thesis by (simp add: behave_coast update_maxSpeed)
next
  case settle
  then show ?thesis by (simp add: behave_settle update_maxSpeed)
next
  case descend
  then show ?thesis by (simp add: behave_descend update_maxSpeed)
qed

lemma behave_maxForce: "maxForce (behave stM stN lastScatter now ang forming p) = maxForce p"
proof (cases rule: behave_cases [where now = now and lastScatter = lastScatter and forming = forming
    and stM = stM and stN = stN and p = p])
  case scatter
  then show ?thesis by (simp add: behave_scatter update_maxForce)
next
  case coast
  then show ?thesis by (simp add: behave_coast update_maxForce)
next
  case settle
  then show ?thesis by (simp add: behave_settle update_maxForce)
next
  case descend
  then show ?thesis by (simp add: behave_descend update_maxForce)
qed

section \<open>The frame loop and the states a running sketch can reach\<close>

lemma draw_loop_length: "length (fst (draw_loop g clock rnd i ps s m)) = length ps"
  by (induction ps arbitrary: i s m) (simp_all add: Let_def)

lemma draw_loop_nth:
  "k < length ps \<Longrightarrow>
   fst (draw_loop g clock rnd i ps s m) ! k =
     behave (stableM g) (stableN g) (lastScatterTime g) (clock (i + k)) (rnd (i + k))
       (patternShouldForm g) (ps ! k)"
proof (induction ps arbitrary: i s m k)
  case Nil
  then show ?case by simp
next
  case (Cons p ps)
  show ?case
  proof (cases k)
    case 0
    then show ?thesis by (simp add: Let_def)
  next
    case (Suc j)
    then have "j < length ps" using Cons.prems by simp
    then show ?thesis using Suc Cons.IH [of j "i + 1"] by (simp add: Let_def)
  qed
qed

lemma draw_loop_counts:
  "fst (snd (draw_loop g clock rnd i ps s m)) =
     s + length (filter isSettled (fst (draw_loop g clock rnd i ps s m)))
   \<and> snd (snd (draw_loop g clock rnd i ps s m)) =
     m + length (filter (\<lambda>p. \<not> isSettled p) (fst (draw_loop g clock rnd i ps s m)))"
proof (induction ps arbitrary: i s m)
  case Nil
  then show ?case by simp
next
  case (Cons p ps)
  let ?p' = "behave (stableM g) (stableN g) (lastScatterTime g) (clock i) (rnd i)
               (patternShouldForm g) p"
  show ?case
  proof (cases "isSettled ?p'")
    case True
    then show ?thesis using Cons.IH [of "i + 1" "s + 1" m] by (simp add: Let_def)
  next
    case False
    then show ?thesis using Cons.IH [of "i + 1" s "m + 1"] by (simp add: Let_def)
  qed
qed

lemma draw_loop_sum:
  "fst (snd (draw_loop g clock rnd i ps s m)) + snd (snd (draw_loop g clock rnd i ps s m)) =
     s + m + length ps"
proof -
  have "length (filter isSettled xs) + length (filter (\<lambda>p. \<not> isSettled p) xs) = length xs"
    for xs :: "particle list"
    by (rule sum_length_filter_compl)
  from this [of "fst (draw_loop g clock rnd i ps s m)"]
  show ?thesis
    using draw_loop_counts [of g clock rnd i ps s m]
    by (simp add: draw_loop_length)
qed

lemma draw_particles:
  "particles (fst (draw clock rnd frameCount g)) = fst (draw_loop g clock rnd 0 (particles g) 0 0)"
  by (simp add: draw_def Let_def)

lemma draw_globals:
  "stableM (fst (draw clock rnd frameCount g)) = stableM g
   \<and> stableN (fst (draw clock rnd frameCount g)) = stableN g
   \<and> patternShouldForm (fst (draw clock rnd frameCount g)) = patternShouldForm g
   \<and> lastScatterTime (fst (draw clock rnd frameCount g)) = lastScatterTime g"
  by (simp add: draw_def Let_def)

lemma draw_audio:
  "snd (draw clock rnd frameCount g) =
     soundGeneration (fst (snd (draw_loop g clock rnd 0 (particles g) 0 0)))
       (snd (snd (draw_loop g clock rnd 0 (particles g) 0 0))) (stableM g) (stableN g) frameCount"
  by (simp add: draw_def Let_def)

lemma draw_nth:
  "k < length (particles g) \<Longrightarrow>
   particles (fst (draw clock rnd frameCount g)) ! k =
     behave (stableM g) (stableN g) (lastScatterTime g) (clock k) (rnd k)
       (patternShouldForm g) (particles g ! k)"
  by (simp add: draw_particles draw_loop_nth)

lemma draw_length:
  "length (particles (fst (draw clock rnd frameCount g))) = length (particles g)"
  by (simp add: draw_particles draw_loop_length)

lemma step_length: "length (particles (step e g)) = length (particles g)"
  by (cases e) (simp_all add: draw_length sliderM_input_def sliderN_input_def keyPressed_def)

lemma run_length: "length (particles (run es g)) = length (particles g)"
  by (induction es arbitrary: g) (simp_all add: step_length)

lemma setup_length: "length (particles (setup_sketch rp)) = NUM_PARTICLES"
  by (simp add: setup_sketch_def)

lemma reachable_length: "length (particles (run es (setup_sketch rp))) = NUM_PARTICLES"
  by (simp add: run_length setup_length)

lemma step_particles_inv:
  assumes "\<forall>p \<in> set (particles g). acc p = createVector 0 0 \<and> maxSpeed p = 2.5 \<and> maxForce p = 0.4"
  shows "\<forall>p \<in> set (particles (step e g)).
           acc p = createVector 0 0 \<and> maxSpeed p = 2.5 \<and> maxForce p = 0.4"
proof (cases e)
  case (Frame clock rnd frameCount)
  show ?thesis
  proof
    fix q
    assume "q \<in> set (particles (step e g))"
    then obtain k where k: "k < length (particles g)"
      and q: "q = particles (fst (draw clock rnd frameCount g)) ! k"
      unfolding Frame by (auto simp: in_set_conv_nth draw_length)
    have "particles g ! k \<in> set (particles g)" using k by simp
    then show "acc q = createVector 0 0 \<and> maxSpeed q = 2.5 \<and> maxForce q = 0.4"
      using assms unfolding q draw_nth [OF k]
      by (simp add: behave_acc behave_maxSpeed behave_maxForce)
  qed
next
  case (SliderM v)
  then show ?thesis using assms by (simp add: sliderM_input_def)
next
  case (SliderN v)
  then show ?thesis using assms by (simp add: sliderN_input_def)
next
  case (Key k now)
  then show ?thesis using assms by (simp add: keyPressed_def)
qed

lemma run_particles_inv:
  "\<forall>p \<in> set (particles g). acc p = createVector 0 0 \<and> maxSpeed p = 2.5 \<and> maxForce p = 0.4 \<Longrightarrow>
   \<forall>p \<in> set (particles (run es g)).
     acc p = createVector 0 0 \<and> maxSpeed p = 2.5 \<and> maxForce p = 0.4"
proof (induction es arbitrary: g)
  case Nil
  then show ?case by simp
next
  case (Cons e es)
  show ?case
    unfolding run.simps by (rule Cons.IH [OF step_particles_inv [OF Cons.prems]])
qed

lemma reachable_particles:
  "\<forall>p \<in> set (particles (run es (setup_sketch rp))).
     acc p = createVector 0 0 \<and> maxSpeed p = 2.5 \<and> maxForce p = 0.4"
  by (rule run_particles_inv) (auto simp: setup_sketch_def new_Particle_def)

lemma step_modes_inv:
  "(\<not> patternShouldForm g \<longrightarrow> stableM g = stableN g) \<Longrightarrow>
   (\<not> patternShouldForm (step e g) \<longrightarrow> stableM (step e g) = stableN (step e g))"
  by (cases e) (simp_all add: draw_globals sliderM_input_def sliderN_input_def keyPressed_def)

lemma run_modes_inv:
  "(\<not> patternShouldForm g \<longrightarrow> stableM g = stableN g) \<Longrightarrow>
   (\<not> patternShouldForm (run es g) \<longrightarrow> stableM (run es g) = stableN (run es g))"
proof (induction es arbitrary: g)
  case Nil
  then show ?case by simp
next
  case (Cons e es)
  show ?case
    unfolding run.simps by (rule Cons.IH [OF step_modes_inv [OF Cons.prems]])
qed

lemma reachable_modes:
  "\<not> patternShouldForm (run es (setup_sketch rp)) \<Longrightarrow>
   stableM (run es (setup_sketch rp)) = stableN (run es (setup_sketch rp))"
  using run_modes_inv [of "setup_sketch rp" es] by (simp add: setup_sketch_def)

text \<open>
  C4. In every frame the settled count plus the moving count tallied by the particle
  loop is the number of particles: they are the numbers of settled and of unsettled
  particles after the loop. A frame does not change the number of particles, and in
  every state a running sketch can reach that number is \<open>NUM_PARTICLES\<close>.
\<close>

theorem tallies_add_up:
  "fst (snd (draw_loop g clock rnd 0 (particles g) 0 0))
     + snd (snd (draw_loop g clock rnd 0 (particles g) 0 0)) = length (particles g)
   \<and> fst (snd (draw_loop g clock rnd 0 (particles g) 0 0)) =
       length (filter isSettled (particles (fst (draw clock rnd frameCount g))))
   \<and> snd (snd (draw_loop g clock rnd 0 (particles g) 0 0)) =
       length (filter (\<lambda>p. \<not> isSettled p) (particles (fst (draw clock rnd frameCount g))))
   \<and> length (particles (fst (draw clock rnd frameCount g))) = length (particles g)
   \<and> length (particles (run es (setup_sketch rp))) = NUM_PARTICLES
   \<and> fst (snd (draw_loop (run es (setup_sketch rp)) clock rnd 0
                 (particles (run es (setup_sketch rp))) 0 0))
       + snd (snd (draw_loop (run es (setup_sketch rp)) clock rnd 0
                     (particles (run es (setup_sketch rp))) 0 0)) = NUM_PARTICLES"
  using draw_loop_sum [of g clock rnd 0 "particles g" 0 0]
    draw_loop_counts [of g clock rnd 0 "particles g" 0 0]
    draw_loop_sum [of "run es (setup_sketch rp)" clock rnd 0
      "particles (run es (setup_sketch rp))" 0 0]
  by (simp add: draw_particles draw_loop_length reachable_length)

section \<open>Sonification\<close>

lemma upt_oscillators: "[0..<NUM_SETTLE_OSCILLATORS] = [0, 1, 2, 3]"
  by (simp add: NUM_SETTLE_OSCILLATORS_def upt_conv_Cons)

lemma soundGeneration_movementAmp:
  "movementAmp (soundGeneration s mv stM stN fc) = map_p5 (real mv) 0 (real NUM_PARTICLES) 0 0.05"
  by (simp add: soundGeneration_def Let_def)

lemma soundGeneration_movementFilterFreq:
  "movementFilterFreq (soundGeneration s mv stM stN fc) =
     map_p5 (real mv) 0 (real NUM_PARTICLES) 100 800"
  by (simp add: soundGeneration_def Let_def)

lemma soundGeneration_oscAmp:
  "oscAmp (soundGeneration s mv stM stN fc) =
     [constrain (map_p5 (real s) 0 (real NUM_PARTICLES) 0 0.4) 0 0.4,
      constrain (map_p5 (real s) 0 (real NUM_PARTICLES) 0 0.4 / 1.5) 0 0.4,
      constrain (map_p5 (real s) 0 (real NUM_PARTICLES) 0 0.4 / 1.5) 0 0.4,
      constrain (map_p5 (real s) 0 (real NUM_PARTICLES) 0 0.4 / 1.5) 0 0.4]"
  by (simp add: soundGeneration_def Let_def upt_oscillators)

text \<open>
  C8. The amplitude of the chaos noise is the linear map of the moving count over
  \<open>[0, NUM_PARTICLES]\<close> to \<open>[0, 0.05]\<close>, and the cutoff of its filter is the linear map of
  the moving count over the same interval to \<open>[100, 800]\<close>. A moving count of 0 gives
  amplitude 0 (and cutoff 100), a moving count of \<open>NUM_PARTICLES\<close> gives amplitude 0.05
  (and cutoff 800). The moving count that \<open>draw\<close> feeds in is the one its loop tallied.
\<close>

theorem chaos_noise_mapping:
  "movementAmp (soundGeneration s mv stM stN fc) = map_p5 (real mv) 0 (real NUM_PARTICLES) 0 0.05
   \<and> movementAmp (soundGeneration s mv stM stN fc) = real mv / 9000 * 0.05
   \<and> movementFilterFreq (soundGeneration s mv stM stN fc) =
       map_p5 (real mv) 0 (real NUM_PARTICLES) 100 800
   \<and> movementFilterFreq (soundGeneration s mv stM stN fc) = 100 + real mv / 9000 * 700
   \<and> movementAmp (soundGeneration s 0 stM stN fc) = 0
   \<and> movementAmp (soundGeneration s NUM_PARTICLES stM stN fc) = 0.05
   \<and> movementFilterFreq (soundGeneration s 0 stM stN fc) = 100
   \<and> movementFilterFreq (soundGeneration s NUM_PARTICLES stM stN fc) = 800
   \<and> movementAmp (snd (draw clock rnd fc g)) =
       map_p5 (real (snd (snd (draw_loop g clock rnd 0 (particles g) 0 0))))
         0 (real NUM_PARTICLES) 0 0.05
   \<and> movementFilterFreq (snd (draw clock rnd fc g)) =
       map_p5 (real (snd (snd (draw_loop g clock rnd 0 (particles g) 0 0))))
         0 (real NUM_PARTICLES) 100 800"
  by (simp add: soundGeneration_movementAmp soundGeneration_movementFilterFreq draw_audio
      map_p5_def NUM_PARTICLES_def)

lemma reachable_settled_le:
  "fst (snd (draw_loop (run es (setup_sketch rp)) clock rnd 0
              (particles (run es (setup_sketch rp))) 0 0)) \<le> NUM_PARTICLES"
  using draw_loop_sum [of "run es (setup_sketch rp)" clock rnd 0
      "particles (run es (setup_sketch rp))" 0 0]
  by (simp add: reachable_length)

text \<open>
  C9. The overall settle amplitude is the linear map of the settled count over
  \<open>[0, NUM_PARTICLES]\<close> to \<open>[0, 0.4]\<close>. The first voice gets it, each of the other three
  voices gets it divided by 1.5, each cut off to \<open>[0, 0.4]\<close>. For a settled count of at
  most \<open>NUM_PARTICLES\<close> (which the count tallied in a reachable state always is) the
  cut-off changes nothing, every amplitude is within \<open>[0, 0.4]\<close>, and the second voice
  is at most the first divided by 1.5. A settled count of 0 gives amplitude 0, a settled
  count of \<open>NUM_PARTICLES\<close> gives 0.4.
\<close>

theorem settle_amplitudes:
  assumes "s \<le> NUM_PARTICLES"
  shows "oscAmp (soundGeneration s mv stM stN fc) =
       [constrain (map_p5 (real s) 0 (real NUM_PARTICLES) 0 0.4) 0 0.4,
        constrain (map_p5 (real s) 0 (real NUM_PARTICLES) 0 0.4 / 1.5) 0 0.4,
        constrain (map_p5 (real s) 0 (real NUM_PARTICLES) 0 0.4 / 1.5) 0 0.4,
        constrain (map_p5 (real s) 0 (real NUM_PARTICLES) 0 0.4 / 1.5) 0 0.4]
   \<and> oscAmp (soundGeneration s mv stM stN fc) =
       [real s / 9000 * 0.4, real s / 9000 * 0.4 / 1.5, real s / 9000 * 0.4 / 1.5,
        real s / 9000 * 0.4 / 1.5]
   \<and> (\<forall>a \<in> set (oscAmp (soundGeneration s mv stM stN fc)). 0 \<le> a \<and> a \<le> 0.4)
   \<and> oscAmp (soundGeneration s mv stM stN fc) ! 1
       \<le> oscAmp (soundGeneration s mv stM stN fc) ! 0 / 1.5
   \<and> oscAmp (soundGeneration 0 mv stM stN fc) = [0, 0, 0, 0]
   \<and> oscAmp (soundGeneration NUM_PARTICLES mv stM stN fc) = [0.4, 0.4 / 1.5, 0.4 / 1.5, 0.4 / 1.5]
   \<and> fst (snd (draw_loop (run es (setup_sketch rp)) clock rnd 0
                 (particles (run es (setup_sketch rp))) 0 0)) \<le> NUM_PARTICLES
   \<and> oscAmp (snd (draw clock rnd fc g)) =
       oscAmp (soundGeneration (fst (snd (draw_loop g clock rnd 0 (particles g) 0 0))) mv
                 stM stN fc)"
proof -
  let ?a = "map_p5 (real s) 0 (real NUM_PARTICLES) 0 0.4"
  have a: "?a = real s / 9000 * 0.4"
    by (simp add: map_p5_def NUM_PARTICLES_def)
  have s: "real s \<le> 9000" using assms by (simp add: NUM_PARTICLES_def)
  have lo: "0 \<le> ?a" unfolding a by simp
  have hi: "?a \<le> 0.4" unfolding a using s by simp
  have c0: "constrain ?a 0 0.4 = ?a"
    using lo hi by (simp add: constrain_def)
  have c1: "constrain (?a / 1.5) 0 0.4 = ?a / 1.5"
    using lo hi by (simp add: constrain_def)
  have gen: "oscAmp (soundGeneration s mv stM stN fc) =
       [constrain ?a 0 0.4, constrain (?a / 1.5) 0 0.4, constrain (?a / 1.5) 0 0.4,
        constrain (?a / 1.5) 0 0.4]"
    by (rule soundGeneration_oscAmp)
  have expl: "oscAmp (soundGeneration s mv stM stN fc) =
       [real s / 9000 * 0.4, real s / 9000 * 0.4 / 1.5, real s / 9000 * 0.4 / 1.5,
        real s / 9000 * 0.4 / 1.5]"
    unfolding gen c0 c1 by (simp only: a)
  have rng: "\<forall>a \<in> set (oscAmp (soundGeneration s mv stM stN fc)). 0 \<le> a \<and> a \<le> 0.4"
    unfolding expl using s by simp
  have v2: "oscAmp (soundGeneration s mv stM stN fc) ! 1
       \<le> oscAmp (soundGeneration s mv stM stN fc) ! 0 / 1.5"
    unfolding expl by simp
  have z: "oscAmp (soundGeneration 0 mv stM stN fc) = [0, 0, 0, 0]"
    by (simp add: soundGeneration_oscAmp map_p5_def constrain_def)
  have t: "oscAmp (soundGeneration NUM_PARTICLES mv stM stN fc) =
       [0.4, 0.4 / 1.5, 0.4 / 1.5, 0.4 / 1.5]"
    by (simp add: soundGeneration_oscAmp map_p5_def constrain_def NUM_PARTICLES_def)
  have d: "oscAmp (snd (draw clock rnd fc g)) =
       oscAmp (soundGeneration (fst (snd (draw_loop g clock rnd 0 (particles g) 0 0))) mv
                 stM stN fc)"
    by (simp add: draw_audio soundGeneration_oscAmp)
  show ?thesis
    by (intro conjI gen expl rng v2 z t reachable_settled_le d)
qed

text \<open>With half of the particles settled the voices get 0.2 and three times 2/15.\<close>

theorem settle_amplitudes_witness:
  "(4500::nat) \<le> NUM_PARTICLES
   \<and> oscAmp (soundGeneration 4500 4500 1 1 0) = [0.2, 2 / 15, 2 / 15, 2 / 15]
   \<and> oscAmp (soundGeneration 4500 4500 1 1 0) ! 1 \<le> oscAmp (soundGeneration 4500 4500 1 1 0) ! 0 / 1.5"
proof -
  have h: "(4500::nat) \<le> NUM_PARTICLES" by (simp add: NUM_PARTICLES_def)
  note t = settle_amplitudes [OF h, of 4500 1 1 0]
  have e: "oscAmp (soundGeneration 4500 4500 1 1 0) = [0.2, 2 / 15, 2 / 15, 2 / 15]"
    using t [THEN conjunct2, THEN conjunct1] by simp
  have v: "oscAmp (soundGeneration 4500 4500 1 1 0) ! 1 \<le> oscAmp (soundGeneration 4500 4500 1 1 0) ! 0 / 1.5"
    using t by blast
  show ?thesis by (intro conjI h e v)
qed

section \<open>Settled particles\<close>

lemma getChladniValue_equal_modes: "getChladniValue m m x y = 0"
  by (simp add: getChladniValue_def chladni_def)

lemma behave_isSettled_scatter:
  "now < lastScatter + SCATTER_DURATION \<Longrightarrow>
   \<not> isSettled (behave stM stN lastScatter now ang forming p)"
  by (simp add: behave_scatter)

lemma behave_isSettled_forming:
  "\<not> now < lastScatter + SCATTER_DURATION \<Longrightarrow>
   isSettled (behave stM stN lastScatter now ang True p) =
     (getChladniValue stM stN (vx (pos p)) (vy (pos p)) < 0.03)"
  by (cases "getChladniValue stM stN (vx (pos p)) (vy (pos p)) < 0.03")
    (simp_all add: behave_settle behave_descend update_isSettled)

text \<open>
  C3. In every state a running sketch can reach, after any frame: a particle whose
  settled flag is true had a field magnitude below 0.03 at its position when \<open>behave\<close>
  was evaluated for it in that frame (the position and the mode numbers the frame
  started with). Particles start unsettled, and between frames the flag does not change.
\<close>

theorem settled_implies_low_field:
  assumes i: "i < NUM_PARTICLES"
    and settled: "isSettled (particles (fst (draw clock rnd frameCount
                     (run es (setup_sketch rp)))) ! i)"
  shows "getChladniValue (stableM (run es (setup_sketch rp))) (stableN (run es (setup_sketch rp)))
           (vx (pos (particles (run es (setup_sketch rp)) ! i)))
           (vy (pos (particles (run es (setup_sketch rp)) ! i))) < 0.03
         \<and> \<not> isSettled (particles (setup_sketch rp) ! i)"
proof -
  let ?g = "run es (setup_sketch rp)"
  let ?p = "particles ?g ! i"
  have len: "i < length (particles ?g)"
    using i by (simp add: reachable_length)
  have b: "isSettled (behave (stableM ?g) (stableN ?g) (lastScatterTime ?g) (clock i) (rnd i)
             (patternShouldForm ?g) ?p)"
    using settled by (simp only: draw_nth [OF len])
  have low: "getChladniValue (stableM ?g) (stableN ?g) (vx (pos ?p)) (vy (pos ?p)) < 0.03"
  proof (cases "clock i < lastScatterTime ?g + SCATTER_DURATION")
    case True
    then show ?thesis using b behave_isSettled_scatter by blast
  next
    case window: False
    show ?thesis
    proof (cases "patternShouldForm ?g")
      case True
      then show ?thesis
        using b behave_isSettled_forming [OF window] by simp
    next
      case False
      then have "stableM ?g = stableN ?g" by (rule reachable_modes)
      then show ?thesis by (simp add: getChladniValue_equal_modes)
    qed
  qed
  have init: "\<not> isSettled (particles (setup_sketch rp) ! i)"
    using i by (simp add: setup_sketch_def new_Particle_def)
  show ?thesis by (intro conjI low init)
qed

text \<open>
  After the M slider has been moved to 3, a particle at the centre of the canvas is on a
  nodal line and is settled by a frame at 600 ms.
\<close>

theorem settled_implies_low_field_witness:
  "(0::nat) < NUM_PARTICLES
   \<and> isSettled (particles (fst (draw (\<lambda>i. 600) (\<lambda>i. 0) 1
         (run [SliderM 3] (setup_sketch (\<lambda>i. (540, 675)))))) ! 0)
   \<and> getChladniValue (stableM (run [SliderM 3] (setup_sketch (\<lambda>i. (540, 675)))))
         (stableN (run [SliderM 3] (setup_sketch (\<lambda>i. (540, 675)))))
         (vx (pos (particles (run [SliderM 3] (setup_sketch (\<lambda>i. (540, 675)))) ! 0)))
         (vy (pos (particles (run [SliderM 3] (setup_sketch (\<lambda>i. (540, 675)))) ! 0))) < 0.03"
proof -
  let ?g = "run [SliderM 3] (setup_sketch (\<lambda>i. (540, 675)))"
  have i: "(0::nat) < NUM_PARTICLES" by (simp add: NUM_PARTICLES_def)
  have len: "0 < length (particles ?g)"
    unfolding reachable_length by (rule i)
  have g: "stableM ?g = 3" "stableN ?g = 1" "lastScatterTime ?g = 0" "patternShouldForm ?g"
    by (simp_all add: sliderM_input_def setup_sketch_def)
  have p: "particles ?g ! 0 = new_Particle 540 675"
    using i by (simp add: sliderM_input_def setup_sketch_def)
  have x: "vx (pos (new_Particle 540 675)) = 540" and y: "vy (pos (new_Particle 540 675)) = 675"
    by (simp_all add: new_Particle_def createVector_def)
  have f: "getChladniValue 3 1 540 675 = 0"
    by (simp add: getChladniValue_def scaled_x scaled_y chladni_def)
  have w: "\<not> (600::real) < 0 + SCATTER_DURATION"
    by (simp add: SCATTER_DURATION_def)
  have s: "isSettled (particles (fst (draw (\<lambda>i. 600) (\<lambda>i. 0) 1 ?g)) ! 0)"
    unfolding draw_nth [OF len] g p
    using behave_isSettled_forming [OF w, of 3 1 0 "new_Particle 540 675"]
    by (simp add: x y f sliderM_input_def setup_sketch_def)
  from settled_implies_low_field [OF i s] i s show ?thesis by blast
qed

section \<open>Coasting while the flag is cleared\<close>

lemma add_vec_zero: "add_vec v (createVector 0 0) = v"
  by (simp add: add_vec_def createVector_def)

lemma update_vel_coasting:
  "acc p = createVector 0 0 \<Longrightarrow> maxSpeed p = 2.5 \<Longrightarrow> vel (update p) = limit (vel p) 2.5"
  by (simp only: update_vel add_vec_zero)

lemma coast_frames:
  assumes "\<not> patternShouldForm g"
    and "i < length (particles g)"
    and "acc (particles g ! i) = createVector 0 0"
    and "maxSpeed (particles g ! i) = 2.5"
    and "\<forall>fr \<in> set fs. \<not> fst fr i < lastScatterTime g + SCATTER_DURATION"
  shows "\<not> patternShouldForm (run (map (\<lambda>fr. Frame (fst fr) (fst (snd fr)) (snd (snd fr))) fs) g)
    \<and> isSettled (particles (run (map (\<lambda>fr. Frame (fst fr) (fst (snd fr)) (snd (snd fr))) fs) g) ! i)
        = isSettled (particles g ! i)
    \<and> vel (particles (run (map (\<lambda>fr. Frame (fst fr) (fst (snd fr)) (snd (snd fr))) fs) g) ! i)
        = (if fs = [] then vel (particles g ! i) else limit (vel (particles g ! i)) 2.5)"
  using assms
proof (induction fs arbitrary: g)
  case Nil
  then show ?case by simp
next
  case (Cons fr fs)
  obtain clock rnd frameCount where fr: "fr = (clock, rnd, frameCount)"
    by (cases fr) auto
  let ?g1 = "fst (draw clock rnd frameCount g)"
  let ?p = "particles g ! i"
  have window: "\<not> clock i < lastScatterTime g + SCATTER_DURATION"
    using Cons.prems(5) fr by simp
  have p1: "particles ?g1 ! i = update ?p"
    using Cons.prems(1) by (simp add: draw_nth [OF Cons.prems(2)] behave_coast [OF window])
  have flag: "\<not> patternShouldForm ?g1"
    using Cons.prems(1) by (simp add: draw_globals)
  have len: "i < length (particles ?g1)"
    using Cons.prems(2) by (simp add: draw_length)
  have a1: "acc (particles ?g1 ! i) = createVector 0 0"
    by (simp add: p1 update_acc)
  have m1: "maxSpeed (particles ?g1 ! i) = 2.5"
    using Cons.prems(4) by (simp add: p1 update_maxSpeed)
  have rest: "\<forall>fr \<in> set fs. \<not> fst fr i < lastScatterTime ?g1 + SCATTER_DURATION"
    using Cons.prems(5) by (simp add: draw_globals)
  have v1: "vel (particles ?g1 ! i) = limit (vel ?p) 2.5"
    unfolding p1 by (rule update_vel_coasting [OF Cons.prems(3) Cons.prems(4)])
  have s1: "isSettled (particles ?g1 ! i) = isSettled ?p"
    by (simp add: p1 update_isSettled)
  have idem: "limit (limit (vel ?p) 2.5) 2.5 = limit (vel ?p) 2.5"
    by (rule limit_idem) simp
  note IH = Cons.IH [OF flag len a1 m1 rest]
  have run_eq: "run (map (\<lambda>fr. Frame (fst fr) (fst (snd fr)) (snd (snd fr))) (fr # fs)) g =
                run (map (\<lambda>fr. Frame (fst fr) (fst (snd fr)) (snd (snd fr))) fs) ?g1"
    by (simp add: fr)
  have v: "(if fs = [] then vel (particles ?g1 ! i) else limit (vel (particles ?g1 ! i)) 2.5) =
           limit (vel ?p) 2.5"
    by (simp only: v1 idem if_cancel)
  have ne: "(fr # fs = []) = False" by simp
  show ?case
    unfolding run_eq ne if_False using IH by (simp only: v s1 simp_thms)
qed

text \<open>
  C10. For every particle of a reachable state in which the pattern-forming flag is
  false: a call of \<open>behave\<close> outside the scatter window is just \<open>update\<close>. It applies no
  force (the random direction is not used and the acceleration, which is zero between
  frames, stays zero), the settled flag is unchanged, and the velocity is only cut to
  the maximum speed. Over any number of further frames outside the window the flag stays
  false, the settled flag stays as it was and the velocity stays the same; a slider
  input sets the flag.
\<close>

theorem coasting_without_flag:
  fixes es :: "event list" and rp :: "nat \<Rightarrow> real \<times> real" and i :: nat and now ang v :: real
    and fs :: "((nat \<Rightarrow> real) \<times> (nat \<Rightarrow> real) \<times> nat) list"
  defines "g \<equiv> run es (setup_sketch rp)"
  defines "p \<equiv> particles g ! i"
  defines "p' \<equiv> behave (stableM g) (stableN g) (lastScatterTime g) now ang
                   (patternShouldForm g) p"
  defines "g' \<equiv> run (map (\<lambda>fr. Frame (fst fr) (fst (snd fr)) (snd (snd fr))) fs) g"
  assumes flag: "\<not> patternShouldForm g"
    and window: "\<not> now < lastScatterTime g + SCATTER_DURATION"
    and i: "i < NUM_PARTICLES"
    and later: "\<forall>fr \<in> set fs. \<not> fst fr i < lastScatterTime g + SCATTER_DURATION"
  shows "p' = update p
    \<and> isSettled p' = isSettled p
    \<and> acc p' = acc p
    \<and> vel p' = limit (vel p) 2.5
    \<and> \<not> patternShouldForm g'
    \<and> isSettled (particles g' ! i) = isSettled p
    \<and> vel (particles g' ! i) = (if fs = [] then vel p else limit (vel p) 2.5)
    \<and> patternShouldForm (sliderM_input v g)
    \<and> patternShouldForm (sliderN_input v g)"
proof -
  have len: "i < length (particles g)"
    unfolding g_def reachable_length by (rule i)
  then have mem: "p \<in> set (particles g)"
    unfolding p_def by (rule nth_mem)
  have inv: "acc p = createVector 0 0 \<and> maxSpeed p = 2.5 \<and> maxForce p = 0.4"
    using reachable_particles [of es rp] mem unfolding g_def by blast
  have a: "acc p = createVector 0 0" and m: "maxSpeed p = 2.5"
    using inv by blast+
  have b: "p' = update p"
    unfolding p'_def using flag by (simp add: behave_coast [OF window])
  have s: "isSettled p' = isSettled p"
    unfolding b by (rule update_isSettled)
  have ac: "acc p' = acc p"
    unfolding b a by (rule update_acc)
  have ve: "vel p' = limit (vel p) 2.5"
    unfolding b by (rule update_vel_coasting [OF a m])
  note c = coast_frames [OF flag len a [unfolded p_def] m [unfolded p_def] later]
  have c1: "\<not> patternShouldForm g'"
    unfolding g'_def using c by blast
  have c2: "isSettled (particles g' ! i) = isSettled p"
    unfolding g'_def p_def using c by blast
  have c3: "vel (particles g' ! i) = (if fs = [] then vel p else limit (vel p) 2.5)"
    unfolding g'_def p_def using c by blast
  have sm: "patternShouldForm (sliderM_input v g)"
    by (simp add: sliderM_input_def)
  have sn: "patternShouldForm (sliderN_input v g)"
    by (simp add: sliderN_input_def)
  show ?thesis by (intro conjI b s ac ve c1 c2 c3 sm sn)
qed

text \<open>
  After the scatter key at 1000 ms: a call at 1500 ms only integrates, and two later
  frames leave the flag cleared.
\<close>

theorem coasting_without_flag_witness:
  "\<not> patternShouldForm (run [Key ''s'' 1000] (setup_sketch (\<lambda>i. (540, 675))))
   \<and> \<not> 1500 < lastScatterTime (run [Key ''s'' 1000] (setup_sketch (\<lambda>i. (540, 675))))
             + SCATTER_DURATION
   \<and> (0::nat) < NUM_PARTICLES
   \<and> behave (stableM (run [Key ''s'' 1000] (setup_sketch (\<lambda>i. (540, 675)))))
         (stableN (run [Key ''s'' 1000] (setup_sketch (\<lambda>i. (540, 675)))))
         (lastScatterTime (run [Key ''s'' 1000] (setup_sketch (\<lambda>i. (540, 675))))) 1500 0
         (patternShouldForm (run [Key ''s'' 1000] (setup_sketch (\<lambda>i. (540, 675)))))
         (particles (run [Key ''s'' 1000] (setup_sketch (\<lambda>i. (540, 675)))) ! 0)
       = update (particles (run [Key ''s'' 1000] (setup_sketch (\<lambda>i. (540, 675)))) ! 0)
   \<and> \<not> patternShouldForm
         (run (map (\<lambda>fr. Frame (fst fr) (fst (snd fr)) (snd (snd fr)))
                 [(\<lambda>i. 2000, \<lambda>i. 0, 1), (\<lambda>i. 2016, \<lambda>i. 0, 2)])
            (run [Key ''s'' 1000] (setup_sketch (\<lambda>i. (540, 675)))))"
proof -
  let ?g = "run [Key ''s'' 1000] (setup_sketch (\<lambda>i. (540, 675)))"
  let ?fs = "[(\<lambda>i::nat. 2000::real, \<lambda>i::nat. 0::real, 1::nat), (\<lambda>i. 2016, \<lambda>i. 0, 2)]"
  have flag: "\<not> patternShouldForm ?g"
    by (simp add: keyPressed_def setup_sketch_def)
  have last: "lastScatterTime ?g = 1000"
    by (simp add: keyPressed_def setup_sketch_def)
  have window: "\<not> 1500 < lastScatterTime ?g + SCATTER_DURATION"
    unfolding last by (simp add: SCATTER_DURATION_def)
  have i: "(0::nat) < NUM_PARTICLES"
    by (simp add: NUM_PARTICLES_def)
  have later: "\<forall>fr \<in> set ?fs. \<not> fst fr 0 < lastScatterTime ?g + SCATTER_DURATION"
    unfolding last by (simp add: SCATTER_DURATION_def)
  note t = coasting_without_flag [OF flag window i later, where ang = 0 and v = 3]
  have b: "behave (stableM ?g) (stableN ?g) (lastScatterTime ?g) 1500 0 (patternShouldForm ?g)
             (particles ?g ! 0) = update (particles ?g ! 0)"
    by (rule t [THEN conjunct1])
  have c: "\<not> patternShouldForm
         (run (map (\<lambda>fr. Frame (fst fr) (fst (snd fr)) (snd (snd fr))) ?fs) ?g)"
    using t by blast
  show ?thesis by (intro conjI flag window i b c)
qed

section \<open>The scatter window\<close>

lemma draw_all_scatter:
  assumes "\<forall>i < length (particles g). clock i < lastScatterTime g + SCATTER_DURATION"
  shows "\<forall>p \<in> set (particles (fst (draw clock rnd frameCount g))). \<not> isSettled p"
proof
  fix q
  assume "q \<in> set (particles (fst (draw clock rnd frameCount g)))"
  then obtain k where k: "k < length (particles g)"
    and q: "q = particles (fst (draw clock rnd frameCount g)) ! k"
    by (auto simp: in_set_conv_nth draw_length)
  have "clock k < lastScatterTime g + SCATTER_DURATION"
    using assms k by blast
  then show "\<not> isSettled q"
    unfolding q draw_nth [OF k] by (rule behave_isSettled_scatter)
qed

text \<open>
  C1, as amended. When the scatter key is pressed at time \<open>t0\<close>, the scatter time is set
  to \<open>t0\<close>, the pattern-forming flag is cleared and the mode numbers are reset to 1.
  Every call of \<open>behave\<close> whose current time is before \<open>t0 + 500\<close> takes the scattering
  branch whatever the mode numbers and the flag are: a random impulse of length 0.8,
  the velocity multiplied by 0.9, the motion integrated, the settled flag false; so a
  frame whose calls all fall in the window leaves every particle unsettled. A call at
  or after \<open>t0 + 500\<close> applies no impulse: as long as the flag is as the key press left
  it, the call only integrates the motion. A slider input sets the flag (and keeps the
  scatter time), and with the flag set a call at or after \<open>t0 + 500\<close> follows the
  settle or gradient-descent logic: the particle is settled exactly when the field
  magnitude at its position is below 0.03.
\<close>

theorem scatter_window:
  fixes g :: sketch and k :: string and t0 now later ang stM stN v :: real and forming :: bool
    and p :: particle and clock rnd :: "nat \<Rightarrow> real" and frameCount :: nat
  defines "g' \<equiv> keyPressed k t0 g"
  assumes key: "k = ''S'' \<or> k = ''s''"
  shows "lastScatterTime g' = t0 \<and> \<not> patternShouldForm g' \<and> stableM g' = 1 \<and> stableN g' = 1
    \<and> (now < t0 + SCATTER_DURATION \<longrightarrow>
         behave stM stN t0 now ang forming p =
           (update (p\<lparr>acc := add_vec (acc p) (mult_vec (random2D ang) 0.8),
                       vel := mult_vec (vel p) 0.9\<rparr>))\<lparr>isSettled := False\<rparr>)
    \<and> ((\<forall>i < length (particles g'). clock i < t0 + SCATTER_DURATION) \<longrightarrow>
         (\<forall>q \<in> set (particles (fst (draw clock rnd frameCount g'))). \<not> isSettled q))
    \<and> (\<not> later < t0 + SCATTER_DURATION \<longrightarrow>
         behave (stableM g') (stableN g') (lastScatterTime g') later ang (patternShouldForm g') p
           = update p)
    \<and> patternShouldForm (sliderM_input v g') \<and> patternShouldForm (sliderN_input v g')
    \<and> lastScatterTime (sliderM_input v g') = t0 \<and> lastScatterTime (sliderN_input v g') = t0
    \<and> (\<not> later < t0 + SCATTER_DURATION \<longrightarrow>
         isSettled (behave stM stN t0 later ang True p) =
           (getChladniValue stM stN (vx (pos p)) (vy (pos p)) < 0.03)
         \<and> (getChladniValue stM stN (vx (pos p)) (vy (pos p)) < 0.03 \<longrightarrow>
              behave stM stN t0 later ang True p =
                update (p\<lparr>vel := mult_vec (vel p) 0.8, acc := mult_vec (acc p) 0,
                           isSettled := True\<rparr>)))"
proof -
  have g: "g' = g\<lparr>stableM := 1, stableN := 1, patternShouldForm := False, lastScatterTime := t0\<rparr>"
    unfolding g'_def keyPressed_def using key by simp
  have a: "lastScatterTime g' = t0" "\<not> patternShouldForm g'" "stableM g' = 1" "stableN g' = 1"
    by (simp_all add: g)
  have l: "lastScatterTime g' = t0" and f: "patternShouldForm g' = False"
    using a by simp_all
  have b: "now < t0 + SCATTER_DURATION \<longrightarrow>
         behave stM stN t0 now ang forming p =
           (update (p\<lparr>acc := add_vec (acc p) (mult_vec (random2D ang) 0.8),
                       vel := mult_vec (vel p) 0.9\<rparr>))\<lparr>isSettled := False\<rparr>"
    by (rule impI) (rule behave_scatter)
  have c: "(\<forall>i < length (particles g'). clock i < t0 + SCATTER_DURATION) \<longrightarrow>
         (\<forall>q \<in> set (particles (fst (draw clock rnd frameCount g'))). \<not> isSettled q)"
    using draw_all_scatter [of g' clock rnd frameCount] unfolding l by blast
  have d: "\<not> later < t0 + SCATTER_DURATION \<longrightarrow>
         behave (stableM g') (stableN g') (lastScatterTime g') later ang (patternShouldForm g') p
           = update p"
    unfolding l f by (rule impI) (rule behave_coast)
  have e: "patternShouldForm (sliderM_input v g')" "patternShouldForm (sliderN_input v g')"
    "lastScatterTime (sliderM_input v g') = t0" "lastScatterTime (sliderN_input v g') = t0"
    by (simp_all add: sliderM_input_def sliderN_input_def l)
  have h: "\<not> later < t0 + SCATTER_DURATION \<longrightarrow>
         isSettled (behave stM stN t0 later ang True p) =
           (getChladniValue stM stN (vx (pos p)) (vy (pos p)) < 0.03)
         \<and> (getChladniValue stM stN (vx (pos p)) (vy (pos p)) < 0.03 \<longrightarrow>
              behave stM stN t0 later ang True p =
                update (p\<lparr>vel := mult_vec (vel p) 0.8, acc := mult_vec (acc p) 0,
                           isSettled := True\<rparr>))"
    using behave_isSettled_forming [of later t0 stM stN ang p] behave_settle [of later t0 stM stN p ang]
    by blast
  show ?thesis by (intro conjI a b c d e h)
qed

text \<open>
  Scatter at 1000 ms in the state after setup, a frame at 1200 ms, a call at 1500 ms.
\<close>

theorem scatter_window_witness:
  "(1200::real) < 1000 + SCATTER_DURATION
   \<and> \<not> (1500::real) < 1000 + SCATTER_DURATION
   \<and> getChladniValue 3 1 (vx (pos (new_Particle 540 675))) (vy (pos (new_Particle 540 675))) < 0.03
   \<and> \<not> isSettled (particles (fst (draw (\<lambda>i. 1200) (\<lambda>i. 0) 1
                 (keyPressed ''s'' 1000 (setup_sketch (\<lambda>i. (540, 675)))))) ! 0)
   \<and> behave (stableM (keyPressed ''s'' 1000 (setup_sketch (\<lambda>i. (540, 675)))))
         (stableN (keyPressed ''s'' 1000 (setup_sketch (\<lambda>i. (540, 675)))))
         (lastScatterTime (keyPressed ''s'' 1000 (setup_sketch (\<lambda>i. (540, 675))))) 1500 0
         (patternShouldForm (keyPressed ''s'' 1000 (setup_sketch (\<lambda>i. (540, 675)))))
         (new_Particle 540 675)
       = update (new_Particle 540 675)
   \<and> isSettled (behave 3 1 1000 1500 0 True (new_Particle 540 675))"
proof -
  let ?g = "setup_sketch (\<lambda>i. (540, 675))"
  let ?p = "new_Particle 540 675"
  have k: "''s'' = ''S'' \<or> ''s'' = ''s''" by simp
  have w1: "(1200::real) < 1000 + SCATTER_DURATION"
    by (simp add: SCATTER_DURATION_def)
  have w2: "\<forall>i < length (particles (keyPressed ''s'' 1000 ?g)).
              (\<lambda>i. 1200) i < 1000 + SCATTER_DURATION"
    by (simp add: SCATTER_DURATION_def)
  have w3: "\<not> (1500::real) < 1000 + SCATTER_DURATION"
    by (simp add: SCATTER_DURATION_def)
  have x: "vx (pos ?p) = 540" and y: "vy (pos ?p) = 675"
    by (simp_all add: new_Particle_def createVector_def)
  have f: "getChladniValue 3 1 (vx (pos ?p)) (vy (pos ?p)) < 0.03"
    unfolding x y by (simp add: getChladniValue_def scaled_x scaled_y chladni_def)
  note t = scatter_window [OF k, where g = ?g and ?t0.0 = 1000 and now = 1200 and later = 1500
      and ang = 0 and stM = 3 and stN = 1 and v = 3 and forming = True and p = ?p
      and clock = "\<lambda>i. 1200" and rnd = "\<lambda>i. 0" and frameCount = 1]
  have all: "\<forall>q \<in> set (particles (fst (draw (\<lambda>i. 1200) (\<lambda>i. 0) 1 (keyPressed ''s'' 1000 ?g)))).
              \<not> isSettled q"
    using t w2 by blast
  have "0 < length (particles (fst (draw (\<lambda>i. 1200) (\<lambda>i. 0) 1 (keyPressed ''s'' 1000 ?g))))"
    by (simp add: draw_length keyPressed_def setup_sketch_def NUM_PARTICLES_def)
  then have "particles (fst (draw (\<lambda>i. 1200) (\<lambda>i. 0) 1 (keyPressed ''s'' 1000 ?g))) ! 0
      \<in> set (particles (fst (draw (\<lambda>i. 1200) (\<lambda>i. 0) 1 (keyPressed ''s'' 1000 ?g))))"
    by (rule nth_mem)
  then have c1: "\<not> isSettled (particles (fst (draw (\<lambda>i. 1200) (\<lambda>i. 0) 1
                   (keyPressed ''s'' 1000 ?g))) ! 0)"
    using all by blast
  have c2: "behave (stableM (keyPressed ''s'' 1000 ?g)) (stableN (keyPressed ''s'' 1000 ?g))
         (lastScatterTime (keyPressed ''s'' 1000 ?g)) 1500 0
         (patternShouldForm (keyPressed ''s'' 1000 ?g)) ?p = update ?p"
    using t w3 by blast
  have c3: "isSettled (behave 3 1 1000 1500 0 True ?p)"
    using t w3 f by blast
  show ?thesis by (intro conjI w1 w3 f c1 c2 c3)
qed

text \<open>
  C1 as stated fails. After the scatter key at 1000 ms, the call at 1500 ms (the window
  has expired, no further input) is not the call of the settle or gradient-descent
  logic: that logic would settle a particle at the centre of the canvas, the code leaves
  it unsettled.
\<close>

theorem scatter_window_counterexample:
  "\<not> 1500 < lastScatterTime (keyPressed ''s'' 1000
            \<lparr>stableM = 3, stableN = 2, particles = [new_Particle 540 675],
             patternShouldForm = True, lastScatterTime = 0\<rparr>) + SCATTER_DURATION
   \<and> behave (stableM (keyPressed ''s'' 1000
            \<lparr>stableM = 3, stableN = 2, particles = [new_Particle 540 675],
             patternShouldForm = True, lastScatterTime = 0\<rparr>))
         (stableN (keyPressed ''s'' 1000
            \<lparr>stableM = 3, stableN = 2, particles = [new_Particle 540 675],
             patternShouldForm = True, lastScatterTime = 0\<rparr>))
         (lastScatterTime (keyPressed ''s'' 1000
            \<lparr>stableM = 3, stableN = 2, particles = [new_Particle 540 675],
             patternShouldForm = True, lastScatterTime = 0\<rparr>)) 1500 0
         (patternShouldForm (keyPressed ''s'' 1000
            \<lparr>stableM = 3, stableN = 2, particles = [new_Particle 540 675],
             patternShouldForm = True, lastScatterTime = 0\<rparr>))
         (new_Particle 540 675)
       \<noteq> behave (stableM (keyPressed ''s'' 1000
            \<lparr>stableM = 3, stableN = 2, particles = [new_Particle 540 675],
             patternShouldForm = True, lastScatterTime = 0\<rparr>))
         (stableN (keyPressed ''s'' 1000
            \<lparr>stableM = 3, stableN = 2, particles = [new_Particle 540 675],
             patternShouldForm = True, lastScatterTime = 0\<rparr>))
         (lastScatterTime (keyPressed ''s'' 1000
            \<lparr>stableM = 3, stableN = 2, particles = [new_Particle 540 675],
             patternShouldForm = True, lastScatterTime = 0\<rparr>)) 1500 0
         True
         (new_Particle 540 675)
   \<and> \<not> isSettled (behave (stableM (keyPressed ''s'' 1000
            \<lparr>stableM = 3, stableN = 2, particles = [new_Particle 540 675],
             patternShouldForm = True, lastScatterTime = 0\<rparr>))
         (stableN (keyPressed ''s'' 1000
            \<lparr>stableM = 3, stableN = 2, particles = [new_Particle 540 675],
             patternShouldForm = True, lastScatterTime = 0\<rparr>))
         (lastScatterTime (keyPressed ''s'' 1000
            \<lparr>stableM = 3, stableN = 2, particles = [new_Particle 540 675],
             patternShouldForm = True, lastScatterTime = 0\<rparr>)) 1500 0
         (patternShouldForm (keyPressed ''s'' 1000
            \<lparr>stableM = 3, stableN = 2, particles = [new_Particle 540 675],
             patternShouldForm = True, lastScatterTime = 0\<rparr>))
         (new_Particle 540 675))
   \<and> isSettled (behave (stableM (keyPressed ''s'' 1000
            \<lparr>stableM = 3, stableN = 2, particles = [new_Particle 540 675],
             patternShouldForm = True, lastScatterTime = 0\<rparr>))
         (stableN (keyPressed ''s'' 1000
            \<lparr>stableM = 3, stableN = 2, particles = [new_Particle 540 675],
             patternShouldForm = True, lastScatterTime = 0\<rparr>))
         (lastScatterTime (keyPressed ''s'' 1000
            \<lparr>stableM = 3, stableN = 2, particles = [new_Particle 540 675],
             patternShouldForm = True, lastScatterTime = 0\<rparr>)) 1500 0
         True
         (new_Particle 540 675))"
proof -
  let ?p = "new_Particle 540 675"
  let ?g = "keyPressed ''s'' 1000
          \<lparr>stableM = 3, stableN = 2, particles = [new_Particle 540 675],
           patternShouldForm = True, lastScatterTime = 0\<rparr>"
  have flag: "patternShouldForm ?g = False" and last: "lastScatterTime ?g = 1000"
    and m: "stableM ?g = 1" and n: "stableN ?g = 1"
    by (simp_all add: keyPressed_def)
  have w: "\<not> (1500::real) < 1000 + SCATTER_DURATION"
    by (simp add: SCATTER_DURATION_def)
  have coast: "behave 1 1 1000 1500 0 False ?p = update ?p"
    by (rule behave_coast [OF w])
  have a: "\<not> isSettled (behave 1 1 1000 1500 0 False ?p)"
    unfolding coast by (simp add: update_isSettled new_Particle_def)
  have b: "isSettled (behave 1 1 1000 1500 0 True ?p)"
    unfolding behave_isSettled_forming [OF w] by (simp add: getChladniValue_equal_modes)
  have ne: "behave 1 1 1000 1500 0 False ?p \<noteq> behave 1 1 1000 1500 0 True ?p"
    using a b by auto
  show ?thesis
    unfolding flag last m n by (intro conjI w ne a b)
qed

end
